theory Spec2Isabelle
  imports Main
begin

unbundle bit_operations_syntax

section \<open>The AppMetrica Logs API client (appmetrica_logs_api/client.py)\<close>

text \<open>
  The client has one public operation, \<open>export\<close>, which assembles a GET request
  (URL, query parameters, headers) and hands it to \<open>_make_request\<close>, a polling loop over the
  HTTP status of the answer. Python dictionaries are maps, exceptions are values of a sum
  type, and the network is an explicit list of the outcomes that successive calls of
  \<open>http_request\<close> have; the requests issued and the arguments of \<open>sleep\<close> are
  recorded in a trace.
\<close>

subsection \<open>Strings and dictionaries\<close>

text \<open>\<open>sep.join(xs)\<close> of Python.\<close>

fun join :: "string \<Rightarrow> string list \<Rightarrow> string" where
  "join sep [] = []"
| "join sep [x] = x"
| "join sep (x # y # ys) = x @ sep @ join sep (y # ys)"

type_synonym dict = "string \<rightharpoonup> string"

text \<open>\<open>d.pop(k, None)\<close>: the value stored under \<open>k\<close>, if any, and the dictionary without \<open>k\<close>.\<close>

definition pop :: "dict \<Rightarrow> string \<Rightarrow> string option \<times> dict" where
  "pop d k = (d k, d(k := None))"

subsection \<open>Timestamps and \<open>strftime\<close>\<close>

text \<open>
  A \<open>datetime\<close> with second precision. Python keeps \<open>1 \<le> year \<le> 9999\<close>,
  \<open>1 \<le> month \<le> 12\<close>, and so on; microseconds and the time zone play no part in the
  directives the client uses.
\<close>

record datetime =
  year :: nat
  month :: nat
  day :: nat
  hour :: nat
  minute :: nat
  second :: nat

definition digit :: "nat \<Rightarrow> char" where
  "digit n = ''0123456789'' ! (n mod 10)"

definition two_digits :: "nat \<Rightarrow> string" where
  "two_digits n = [digit (n div 10), digit n]"

definition four_digits :: "nat \<Rightarrow> string" where
  "four_digits n = [digit (n div 1000), digit (n div 100), digit (n div 10), digit n]"

text \<open>A number in decimal, without padding.\<close>

fun decimal :: "nat \<Rightarrow> string" where
  "decimal n = (if n < 10 then [digit n] else decimal (n div 10) @ [digit n])"

declare decimal.simps [simp del]

text \<open>
  The directives of \<open>strftime\<close> that occur in the client's format. \<open>%Y\<close> is the year
  as a decimal number; the C library (glibc) does not pad it, so the year 999 is written
  "999", and only the years from 1000 on have four digits. The other directives are
  zero-padded to two digits. Any other directive is left as it is written.
\<close>

definition directive :: "datetime \<Rightarrow> char \<Rightarrow> string" where
  "directive d c =
     (if c = CHR ''Y'' then decimal (year d)
      else if c = CHR ''m'' then two_digits (month d)
      else if c = CHR ''d'' then two_digits (day d)
      else if c = CHR ''H'' then two_digits (hour d)
      else if c = CHR ''M'' then two_digits (minute d)
      else if c = CHR ''S'' then two_digits (second d)
      else [CHR ''%'', c])"

fun strftime :: "datetime \<Rightarrow> string \<Rightarrow> string" where
  "strftime d [] = []"
| "strftime d [c] = [c]"
| "strftime d (c # x # cs) =
     (if c = CHR ''%'' then directive d x @ strftime d cs else c # strftime d (x # cs))"

subsection \<open>Resources and their schemas\<close>

text \<open>
  Modelled from the spec: the module \<open>appmetrica_logs_api.constants\<close> is missing; the
  registry's two keys \<open>APIResources.EVENTS\<close> and \<open>APIResources.INSTALLATIONS\<close> are the
  resource names "events" and "installations".
\<close>

definition EVENTS :: string where
  "EVENTS = ''events''"

definition INSTALLATIONS :: string where
  "INSTALLATIONS = ''installations''"

text \<open>
  The schema classes (\<open>appmetrica_logs_api.schemas\<close>) are missing as well. All the client
  reads of a schema is \<open>model_fields.keys()\<close>, the field names in declaration order, so the
  two lists are parameters of the model.
\<close>

record schemas =
  EventsSchema :: "string list"
  InstallationsSchema :: "string list"

definition RESOURCES_SCHEMA :: "schemas \<Rightarrow> (string \<times> string list) list" where
  "RESOURCES_SCHEMA S = [(EVENTS, EventsSchema S), (INSTALLATIONS, InstallationsSchema S)]"

subsection \<open>Exceptions\<close>

text \<open>
  The argument an \<open>AppmetricaClientError\<close> is raised with: one of the two messages of
  \<open>export\<close> (Russian text in the source: "resource ... is not available for export", and
  "for resource ... a date range is required - parameters date_from and date_to"), each
  naming the resource, or the class \<open>ConnectionError\<close> itself, which is what
  \<open>_make_request\<close> passes.
\<close>

datatype client_arg =
    ResourceNotAvailable string
  | DateRangeRequired string
  | ConnectionErrorClass

text \<open>
  The second component of \<open>AppmetricaClientError\<close> is the exception's \<open>__context__\<close>:
  Python sets it, in a \<open>raise\<close> inside an \<open>except\<close> block, to the exception being
  handled (here given by its message). \<open>Propagated\<close> is an exception of the transport
  library that is not a \<open>ConnectionError\<close> and so passes through the \<open>except\<close>
  clause; \<open>JSONDecodeError\<close> is what \<open>response.json()\<close> raises on a body that does
  not parse.
\<close>

datatype error =
    AppmetricaClientError client_arg "string option"
  | AppmetricaApiError string
  | Propagated string
  | JSONDecodeError

subsection \<open>The network and the trace of effects\<close>

record response =
  status_code :: int
  resp_text :: string

datatype http_outcome =
    Returns response
  | RaisesConnectionError string
  | RaisesOther string

record request =
  req_url :: string
  req_params :: dict
  req_headers :: dict

record trace =
  requests :: "request list"
  sleeps :: "int list"

definition no_effects :: trace where
  "no_effects = \<lparr>requests = [], sleeps = []\<rparr>"

subsection \<open>The client\<close>

record AppMetrica =
  app_token :: string
  api_endpoint :: string

definition init :: "string \<Rightarrow> AppMetrica" where
  "init token =
     \<lparr>app_token = token, api_endpoint = ''https://api.appmetrica.yandex.ru/logs/v1/export''\<rparr>"

text \<open>
  The argument of \<open>sleep\<close>: \<open>base_delay * 2 ^ retry_count\<close>. In Python \<open>^\<close> is bitwise
  exclusive or and binds more loosely than \<open>*\<close>.
\<close>

definition backoff :: "int \<Rightarrow> int \<Rightarrow> int" where
  "backoff base_delay retry_count = (base_delay * 2) XOR retry_count"

text \<open>
  The \<open>while True\<close> loop of \<open>_make_request\<close>. Each iteration issues the request and
  consumes one outcome of the network. With no outcome left the call is still waiting for
  its answer: the result is \<open>None\<close>, and the trace holds what has been done so far.
\<close>

fun make_request_loop ::
  "request \<Rightarrow> http_outcome list \<Rightarrow> int \<Rightarrow> int \<Rightarrow> trace \<Rightarrow> (error + response) option \<times> trace"
where
  "make_request_loop rq [] base_delay retry_count tr =
     (None, tr\<lparr>requests := requests tr @ [rq]\<rparr>)"
| "make_request_loop rq (out # outs) base_delay retry_count tr =
     (let tr1 = tr\<lparr>requests := requests tr @ [rq]\<rparr> in
      case out of
        Returns resp \<Rightarrow>
          if status_code resp = 200 then (Some (Inr resp), tr1)
          else if status_code resp = 201 \<or> status_code resp = 202 then
            make_request_loop rq outs base_delay (retry_count + 1)
              (tr1\<lparr>sleeps := sleeps tr1 @ [backoff base_delay (retry_count + 1)]\<rparr>)
          else (Some (Inl (AppmetricaApiError (resp_text resp))), tr1)
      | RaisesConnectionError msg \<Rightarrow>
          (Some (Inl (AppmetricaClientError ConnectionErrorClass (Some msg))), tr1)
      | RaisesOther msg \<Rightarrow> (Some (Inl (Propagated msg)), tr1))"

definition make_request ::
  "AppMetrica \<Rightarrow> string \<Rightarrow> dict \<Rightarrow> dict \<Rightarrow> http_outcome list
     \<Rightarrow> (error + response) option \<times> trace"
where
  "make_request self url params headers outs =
     (let retry_count = 0;
          base_delay = 10;
          headers1 = headers(''Authorization'' \<mapsto> ''OAuth '' @ app_token self)
      in make_request_loop \<lparr>req_url = url, req_params = params, req_headers = headers1\<rparr>
           outs base_delay retry_count no_effects)"

text \<open>
  What \<open>export\<close> returns: the body as text, or the document \<open>response.json()\<close> parses
  from it. The parser belongs to the transport library and is a parameter; \<open>None\<close> is a
  body that does not parse.
\<close>

datatype 'j payload = Text string | Json 'j

definition export ::
  "schemas \<Rightarrow> (string \<Rightarrow> 'j option) \<Rightarrow> AppMetrica \<Rightarrow> string \<Rightarrow> string \<Rightarrow> string list option
     \<Rightarrow> datetime option \<Rightarrow> datetime option \<Rightarrow> dict \<Rightarrow> http_outcome list
     \<Rightarrow> (error + 'j payload) option \<times> trace"
where
  "export S json self resource application_id fields0 date_from date_to kwargs outs =
     (let dt_format = ''%Y-%m-%d %H:%M:%S'';
          (fmt, kwargs1) = pop kwargs ''export_format'';
          export_format = (case fmt of None \<Rightarrow> ''csv'' | Some f \<Rightarrow> f);
          api_url = join ''/'' [api_endpoint self, resource] @ ''.'' @ export_format
      in case map_of (RESOURCES_SCHEMA S) resource of
           None \<Rightarrow>
             (Some (Inl (AppmetricaClientError (ResourceNotAvailable resource) None)), no_effects)
         | Some model_fields \<Rightarrow>
             (let fields1 = (case fields0 of None \<Rightarrow> join '','' model_fields
                                          | Some fs \<Rightarrow> join '','' fs);
                  headers = Map.empty;
                  (cache_control, kwargs2) = pop kwargs1 ''cache_control'';
                  headers1 = (case cache_control of
                                Some v \<Rightarrow> if v \<noteq> [] then headers(''Cache-Control'' \<mapsto> v)
                                          else headers
                              | None \<Rightarrow> headers);
                  (accept_encoding, kwargs3) = pop kwargs2 ''accept_encoding'';
                  headers2 = (case accept_encoding of
                                Some v \<Rightarrow> if v \<noteq> [] then headers1(''Accept-Encoding'' \<mapsto> v)
                                          else headers1
                              | None \<Rightarrow> headers1);
                  params = [''application_id'' \<mapsto> application_id, ''fields'' \<mapsto> fields1]
                             ++ kwargs3;
                  dated =
                    (if resource \<noteq> ''profiles'' \<and> resource \<noteq> ''push_tokens'' then
                       (case (date_from, date_to) of
                          (Some df, Some dt) \<Rightarrow>
                            Inr (params(''date_since'' \<mapsto> strftime df dt_format,
                                        ''date_until'' \<mapsto> strftime dt dt_format))
                        | _ \<Rightarrow> Inl (AppmetricaClientError (DateRangeRequired resource) None))
                     else Inr params)
              in case dated of
                   Inl e \<Rightarrow> (Some (Inl e), no_effects)
                 | Inr params1 \<Rightarrow>
                     (case make_request self api_url params1 headers2 outs of
                        (None, tr) \<Rightarrow> (None, tr)
                      | (Some (Inl e), tr) \<Rightarrow> (Some (Inl e), tr)
                      | (Some (Inr resp), tr) \<Rightarrow>
                          if export_format = ''csv'' then (Some (Inr (Text (resp_text resp))), tr)
                          else (case json (resp_text resp) of
                                  Some j \<Rightarrow> (Some (Inr (Json j)), tr)
                                | None \<Rightarrow> (Some (Inl JSONDecodeError), tr)))))"

subsection \<open>Notions used in the statements\<close>

text \<open>An answer with status 201 or 202: the export is still being prepared.\<close>

definition preparing :: "http_outcome \<Rightarrow> bool" where
  "preparing out =
     (case out of Returns resp \<Rightarrow> status_code resp = 201 \<or> status_code resp = 202
      | _ \<Rightarrow> False)"

text \<open>
  The arguments of \<open>sleep\<close> over \<open>n\<close> consecutive retries when the counter stands at
  \<open>rc\<close> before the first of them.
\<close>

fun backoffs :: "int \<Rightarrow> int \<Rightarrow> nat \<Rightarrow> int list" where
  "backoffs b rc 0 = []"
| "backoffs b rc (Suc n) = backoff b (rc + 1) # backoffs b (rc + 1) n"

text \<open>An answer with a status code and a body.\<close>

definition status :: "int \<Rightarrow> string \<Rightarrow> http_outcome" where
  "status code body = Returns \<lparr>status_code = code, resp_text = body\<rparr>"

text \<open>The request as it goes out: the headers given, with the authorization header set.\<close>

definition sent :: "AppMetrica \<Rightarrow> string \<Rightarrow> dict \<Rightarrow> dict \<Rightarrow> request" where
  "sent self url params headers =
     \<lparr>req_url = url, req_params = params,
      req_headers = headers(''Authorization'' \<mapsto> ''OAuth '' @ app_token self)\<rparr>"

text \<open>
  The export format of a call: the option \<open>export_format\<close>, or "csv" without it.
\<close>

definition export_format_of :: "dict \<Rightarrow> string" where
  "export_format_of kwargs = (case kwargs ''export_format'' of None \<Rightarrow> ''csv'' | Some f \<Rightarrow> f)"

text \<open>
  An option as the header code sees it, \<open>if v := kwargs.pop(k, None)\<close>: the value
  when one was supplied and is not empty.
\<close>

definition truthy :: "string option \<Rightarrow> string option" where
  "truthy v = (case v of Some s \<Rightarrow> if s \<noteq> [] then Some s else None | None \<Rightarrow> None)"

text \<open>
  The headers and the query parameters of a call before the date range and the
  authorization header are added, and the decoding of the executor's result; the lemma
  \<open>export_staged\<close> below shows that \<open>export\<close> is composed of them.
\<close>

definition export_headers :: "dict \<Rightarrow> dict" where
  "export_headers kwargs =
     (\<lambda>h. if h = ''Accept-Encoding'' then truthy (kwargs ''accept_encoding'')
          else if h = ''Cache-Control'' then truthy (kwargs ''cache_control'')
          else None)"

definition export_params :: "string \<Rightarrow> string \<Rightarrow> dict \<Rightarrow> dict" where
  "export_params application_id fields1 kwargs =
     [''application_id'' \<mapsto> application_id, ''fields'' \<mapsto> fields1] ++
     kwargs(''export_format'' := None, ''cache_control'' := None, ''accept_encoding'' := None)"

definition decode ::
  "(string \<Rightarrow> 'j option) \<Rightarrow> string \<Rightarrow> (error + response) option \<times> trace
     \<Rightarrow> (error + 'j payload) option \<times> trace"
where
  "decode json export_format r =
     (case r of
        (None, tr) \<Rightarrow> (None, tr)
      | (Some (Inl e), tr) \<Rightarrow> (Some (Inl e), tr)
      | (Some (Inr resp), tr) \<Rightarrow>
          if export_format = ''csv'' then (Some (Inr (Text (resp_text resp))), tr)
          else (case json (resp_text resp) of
                  Some j \<Rightarrow> (Some (Inr (Json j)), tr)
                | None \<Rightarrow> (Some (Inl JSONDecodeError), tr)))"

text \<open>
  The timestamp layout "yyyy-MM-dd HH:mm:ss": four digits for the year, two for each of the
  other parts.
\<close>

definition yyyy_MM_dd_HH_mm_ss :: "datetime \<Rightarrow> string" where
  "yyyy_MM_dd_HH_mm_ss d =
     four_digits (year d) @ ''-'' @ two_digits (month d) @ ''-'' @ two_digits (day d) @ '' '' @
     two_digits (hour d) @ '':'' @ two_digits (minute d) @ '':'' @ two_digits (second d)"

subsection \<open>Sample inputs\<close>

text \<open>
  Two field lists standing for the schemas, a parser that knows the empty JSON array,
  and a date range.
\<close>

definition sample_schemas :: schemas where
  "sample_schemas =
     \<lparr>EventsSchema = [''event_name'', ''event_timestamp''],
      InstallationsSchema = [''install_datetime'', ''is_reinstallation'']\<rparr>"

definition sample_json :: "string \<Rightarrow> string list option" where
  "sample_json body = (if body = ''[]'' then Some [] else None)"

definition sample_from :: datetime where
  "sample_from = \<lparr>year = 2024, month = 3, day = 7, hour = 9, minute = 5, second = 0\<rparr>"

definition sample_to :: datetime where
  "sample_to = \<lparr>year = 2024, month = 12, day = 31, hour = 23, minute = 59, second = 59\<rparr>"

text \<open>A timestamp in the year 999.\<close>

definition sample_early :: datetime where
  "sample_early = \<lparr>year = 999, month = 1, day = 2, hour = 3, minute = 4, second = 5\<rparr>"

section \<open>The request executor\<close>

lemma preparingE:
  assumes "preparing out"
  obtains resp where "out = Returns resp" "status_code resp = 201 \<or> status_code resp = 202"
  using assms by (cases out) (auto simp: preparing_def)

lemma make_request_loop_preparing:
  "list_all preparing pre \<Longrightarrow>
   make_request_loop rq (pre @ rest) b rc tr =
   make_request_loop rq rest b (rc + int (length pre))
     (tr\<lparr>requests := requests tr @ replicate (length pre) rq,
        sleeps := sleeps tr @ backoffs b rc (length pre)\<rparr>)"
proof (induction pre arbitrary: rc tr)
  case Nil
  show ?case by simp
next
  case (Cons out pre)
  from Cons.prems have p: "preparing out" and ps: "list_all preparing pre"
    by simp_all
  from p obtain resp where out: "out = Returns resp"
    and st: "status_code resp = 201 \<or> status_code resp = 202"
    by (rule preparingE)
  from st have n200: "status_code resp \<noteq> 200" by auto
  show ?case
    using st n200
    by (simp add: out Let_def Cons.IH [OF ps] replicate_app_Cons_same add.assoc)
qed

lemma backoffs_eq: "backoffs b rc n = map (\<lambda>k. backoff b (rc + 1 + int k)) [0..<n]"
proof (induction n arbitrary: rc)
  case 0
  show ?case by simp
next
  case (Suc n)
  have "map (\<lambda>k. backoff b (rc + 1 + int k)) [0..<Suc n] =
      backoff b (rc + 1) # map (\<lambda>k. backoff b (rc + 1 + 1 + int k)) [0..<n]"
    unfolding map_upt_Suc by (simp add: add.assoc)
  then show ?case
    by (simp only: backoffs.simps Suc.IH)
qed

lemma make_request_loop_requests:
  "set (requests (snd (make_request_loop rq outs b rc tr))) = insert rq (set (requests tr))"
  by (induction rq outs b rc tr rule: make_request_loop.induct)
     (auto simp: Let_def split: http_outcome.splits)

lemma make_request_after_preparing:
  "list_all preparing pre \<Longrightarrow>
   make_request self url params headers (pre @ rest) =
   make_request_loop (sent self url params headers) rest 10 (int (length pre))
     \<lparr>requests = replicate (length pre) (sent self url params headers),
      sleeps = backoffs 10 0 (length pre)\<rparr>"
  by (simp add: make_request_def Let_def sent_def no_effects_def make_request_loop_preparing)

text \<open>
  C5. The executor is a state machine over the status code. After any number of
  "preparing" answers (201 or 202), an answer with status 200 is returned at once, and an
  answer with any status other than 200, 201, 202 raises \<open>AppmetricaApiError\<close> with the
  body of that answer. In both cases the request has gone out once for each answer consumed
  and never again, whatever the server would have answered next: a first answer 403 with
  body "forbidden" gives the error "forbidden" after a single request and no sleep.
\<close>

theorem make_request_status_machine:
  assumes "list_all preparing pre"
  shows "(status_code resp = 200 \<longrightarrow>
            make_request self url params headers (pre @ Returns resp # rest) =
              (Some (Inr resp),
               \<lparr>requests = replicate (Suc (length pre)) (sent self url params headers),
                sleeps = backoffs 10 0 (length pre)\<rparr>)) \<and>
         (status_code resp \<noteq> 200 \<and> status_code resp \<noteq> 201 \<and> status_code resp \<noteq> 202 \<longrightarrow>
            make_request self url params headers (pre @ Returns resp # rest) =
              (Some (Inl (AppmetricaApiError (resp_text resp))),
               \<lparr>requests = replicate (Suc (length pre)) (sent self url params headers),
                sleeps = backoffs 10 0 (length pre)\<rparr>))"
  by (simp add: make_request_after_preparing [OF assms] Let_def replicate_append_same)

theorem make_request_status_machine_witness:
  "make_request (init ''token'') ''u'' Map.empty Map.empty
     [status 403 ''forbidden'', status 200 ''late''] =
     (Some (Inl (AppmetricaApiError ''forbidden'')),
      \<lparr>requests = [sent (init ''token'') ''u'' Map.empty Map.empty], sleeps = []\<rparr>) \<and>
   make_request (init ''token'') ''u'' Map.empty Map.empty
     [status 202 [], status 201 [], status 200 ''a,b'', status 500 ''late''] =
     (Some (Inr \<lparr>status_code = 200, resp_text = ''a,b''\<rparr>),
      \<lparr>requests = replicate 3 (sent (init ''token'') ''u'' Map.empty Map.empty),
       sleeps = [21, 22]\<rparr>)"
  using make_request_status_machine [of "[]" "\<lparr>status_code = 403, resp_text = ''forbidden''\<rparr>"
      "init ''token''" "''u''" Map.empty Map.empty "[status 200 ''late'']"]
    make_request_status_machine [of "[status 202 [], status 201 []]"
      "\<lparr>status_code = 200, resp_text = ''a,b''\<rparr>"
      "init ''token''" "''u''" Map.empty Map.empty "[status 500 ''late'']"]
  by (simp add: status_def preparing_def backoff_def numeral_2_eq_2 numeral_3_eq_3)

text \<open>
  C6, as amended. When the transport raises \<open>ConnectionError\<close>, at the first attempt or
  after any number of "preparing" answers, the executor raises \<open>AppmetricaClientError\<close>
  and issues no further request. Any other exception of the transport is not caught: it
  leaves the executor as it is, also without a further request.
\<close>

theorem make_request_connection_error:
  assumes "list_all preparing pre"
  shows "make_request self url params headers (pre @ RaisesConnectionError msg # rest) =
           (Some (Inl (AppmetricaClientError ConnectionErrorClass (Some msg))),
            \<lparr>requests = replicate (Suc (length pre)) (sent self url params headers),
             sleeps = backoffs 10 0 (length pre)\<rparr>) \<and>
         make_request self url params headers (pre @ RaisesOther msg # rest) =
           (Some (Inl (Propagated msg)),
            \<lparr>requests = replicate (Suc (length pre)) (sent self url params headers),
             sleeps = backoffs 10 0 (length pre)\<rparr>)"
  by (simp add: make_request_after_preparing [OF assms] Let_def replicate_append_same)

theorem make_request_connection_error_witness:
  "make_request (init ''token'') ''u'' Map.empty Map.empty
     [RaisesConnectionError ''connection refused'', status 200 ''late''] =
     (Some (Inl (AppmetricaClientError ConnectionErrorClass (Some ''connection refused''))),
      \<lparr>requests = [sent (init ''token'') ''u'' Map.empty Map.empty], sleeps = []\<rparr>) \<and>
   make_request (init ''token'') ''u'' Map.empty Map.empty
     [status 202 [], RaisesConnectionError ''reset by peer'', status 200 ''late''] =
     (Some (Inl (AppmetricaClientError ConnectionErrorClass (Some ''reset by peer''))),
      \<lparr>requests = replicate 2 (sent (init ''token'') ''u'' Map.empty Map.empty),
       sleeps = [21]\<rparr>) \<and>
   make_request (init ''token'') ''u'' Map.empty Map.empty
     [status 202 [], RaisesOther ''read timed out'', status 200 ''late''] =
     (Some (Inl (Propagated ''read timed out'')),
      \<lparr>requests = replicate 2 (sent (init ''token'') ''u'' Map.empty Map.empty),
       sleeps = [21]\<rparr>)"
  using make_request_connection_error [of "[]" "init ''token''" "''u''" Map.empty Map.empty
      "''connection refused''" "[status 200 ''late'']"]
    make_request_connection_error [of "[status 202 []]" "init ''token''" "''u''" Map.empty Map.empty
      "''reset by peer''" "[status 200 ''late'']"]
    make_request_connection_error [of "[status 202 []]" "init ''token''" "''u''" Map.empty Map.empty
      "''read timed out''" "[status 200 ''late'']"]
  by (simp add: status_def preparing_def backoff_def numeral_2_eq_2)

text \<open>
  A connection that breaks while the body is read is reported by the transport as an
  exception that is not a \<open>ConnectionError\<close>; the executor does not turn it into an
  \<open>AppmetricaClientError\<close>.
\<close>

theorem make_request_unwrapped_counterexample:
  "make_request (init ''token'') ''u'' Map.empty Map.empty
     [RaisesOther ''ChunkedEncodingError: connection broken'', status 200 ''late''] =
     (Some (Inl (Propagated ''ChunkedEncodingError: connection broken'')),
      \<lparr>requests = [sent (init ''token'') ''u'' Map.empty Map.empty], sleeps = []\<rparr>)"
  by (simp add: make_request_def Let_def no_effects_def sent_def)

text \<open>
  C3. The intervals of consecutive retries are meant to grow, and the comment at the
  \<open>sleep\<close> call says so. They do not: with four "preparing" answers before the 200 the
  executor sleeps 21, 22, 23 and then 16 seconds, the fourth interval being shorter than
  the third. (For two retries the intervals are 21 and 22.)
\<close>

theorem backoff_sequence_drops:
  "make_request self url params headers
     [status 202 [], status 202 [], status 202 [], status 202 [], status 200 body] =
     (Some (Inr \<lparr>status_code = 200, resp_text = body\<rparr>),
      \<lparr>requests = replicate 5 (sent self url params headers),
       sleeps = [21, 22, 23, 16]\<rparr>)"
  by (simp add: make_request_def Let_def status_def no_effects_def backoff_def sent_def
      numeral_eq_Suc)

section \<open>Request assembly and decoding in \<open>export\<close>\<close>

subsection \<open>The registry\<close>

lemma registered_cases:
  "map_of (RESOURCES_SCHEMA S) resource =
     (if resource = ''events'' then Some (EventsSchema S)
      else if resource = ''installations'' then Some (InstallationsSchema S) else None)"
  by (simp add: RESOURCES_SCHEMA_def EVENTS_def INSTALLATIONS_def)

lemma registry_keys: "fst ` set (RESOURCES_SCHEMA S) = {''events'', ''installations''}"
  by (auto simp: RESOURCES_SCHEMA_def EVENTS_def INSTALLATIONS_def)

lemma registered_not_exempt:
  assumes "map_of (RESOURCES_SCHEMA S) resource = Some fs"
  shows "resource \<noteq> ''profiles'' \<and> resource \<noteq> ''push_tokens''"
  using assms by (auto simp: registered_cases split: if_splits)

lemma sample_registry:
  "map_of (RESOURCES_SCHEMA sample_schemas) ''events'' = Some [''event_name'', ''event_timestamp'']"
  "map_of (RESOURCES_SCHEMA sample_schemas) ''installations'' =
     Some [''install_datetime'', ''is_reinstallation'']"
  by (simp_all add: registered_cases sample_schemas_def)

subsection \<open>The stages of \<open>export\<close>\<close>

lemma export_unregistered:
  assumes "map_of (RESOURCES_SCHEMA S) resource = None"
  shows "export S json self resource app fields0 date_from date_to kwargs outs =
           (Some (Inl (AppmetricaClientError (ResourceNotAvailable resource) None)), no_effects)"
  unfolding export_def pop_def Let_def prod.case assms option.case ..

lemma headers_built:
  "(case kwargs ''accept_encoding'' of
      None \<Rightarrow> (case kwargs ''cache_control'' of None \<Rightarrow> Map.empty
               | Some v \<Rightarrow> if v \<noteq> [] then [''Cache-Control'' \<mapsto> v] else Map.empty)
    | Some w \<Rightarrow>
        if w \<noteq> [] then
          (case kwargs ''cache_control'' of None \<Rightarrow> Map.empty
           | Some v \<Rightarrow> if v \<noteq> [] then [''Cache-Control'' \<mapsto> v] else Map.empty)
          (''Accept-Encoding'' \<mapsto> w)
        else (case kwargs ''cache_control'' of None \<Rightarrow> Map.empty
              | Some v \<Rightarrow> if v \<noteq> [] then [''Cache-Control'' \<mapsto> v] else Map.empty))
   = export_headers kwargs"
  by (rule ext) (simp add: export_headers_def truthy_def split: option.splits)

lemma export_staged:
  assumes "map_of (RESOURCES_SCHEMA S) resource = Some fs"
  shows "export S json self resource app fields0 date_from date_to kwargs outs =
    (case (date_from, date_to) of
       (Some df, Some dt) \<Rightarrow>
          decode json (export_format_of kwargs)
            (make_request self
               (api_endpoint self @ ''/'' @ resource @ ''.'' @ export_format_of kwargs)
               ((export_params app
                   (join '','' (case fields0 of None \<Rightarrow> fs | Some xs \<Rightarrow> xs)) kwargs)
                  (''date_since'' \<mapsto> strftime df ''%Y-%m-%d %H:%M:%S'',
                   ''date_until'' \<mapsto> strftime dt ''%Y-%m-%d %H:%M:%S''))
               (export_headers kwargs) outs)
     | _ \<Rightarrow> (Some (Inl (AppmetricaClientError (DateRangeRequired resource) None)), no_effects))"
proof -
  have ne: "resource \<noteq> ''profiles'' \<and> resource \<noteq> ''push_tokens''"
    using assms by (rule registered_not_exempt)
  have fs: "(case fields0 of None \<Rightarrow> join '','' fs | Some xs \<Rightarrow> join '','' xs) =
      join '','' (case fields0 of None \<Rightarrow> fs | Some xs \<Rightarrow> xs)"
    by (cases fields0) simp_all
  have k1: "(kwargs(''export_format'' := None)) ''cache_control'' = kwargs ''cache_control''"
    by simp
  have k2: "(kwargs(''export_format'' := None, ''cache_control'' := None)) ''accept_encoding'' =
      kwargs ''accept_encoding''"
    by simp
  have u: "join ''/'' [api_endpoint self, resource] = api_endpoint self @ ''/'' @ resource"
    by simp
  show ?thesis
  proof (cases date_from)
    case None
    show ?thesis
      unfolding export_def pop_def Let_def prod.case assms None option.case if_P [OF ne] sum.case ..
  next
    case df: (Some df)
    show ?thesis
    proof (cases date_to)
      case None
      show ?thesis
        unfolding export_def pop_def Let_def prod.case assms df None option.case if_P [OF ne]
          sum.case ..
    next
      case dt: (Some dt)
      show ?thesis
        unfolding export_def pop_def Let_def prod.case assms df dt option.case if_P [OF ne]
          sum.case fs k1 k2 u
        unfolding headers_built decode_def export_format_of_def export_params_def append_assoc
          prod.case ..
    qed
  qed
qed

lemma decimal_step: "10 \<le> m \<Longrightarrow> decimal m = decimal (m div 10) @ [digit m]"
  by (subst decimal.simps) simp

lemma decimal_one_digit: "m < 10 \<Longrightarrow> decimal m = [digit m]"
  by (subst decimal.simps) simp

lemma decimal_four_digits:
  assumes "1000 \<le> n" and "n \<le> 9999"
  shows "decimal n = four_digits n"
proof -
  have h: "n div 10 div 10 = n div 100" and t: "n div 100 div 10 = n div 1000"
    by (simp_all add: div_mult2_eq [symmetric])
  from assms have b1: "10 \<le> n" and b2: "10 \<le> n div 10" and b3: "10 \<le> n div 100"
    and b4: "n div 1000 < 10"
    by simp_all
  have "decimal n = decimal (n div 10) @ [digit n]"
    using b1 by (rule decimal_step)
  also have "decimal (n div 10) = decimal (n div 100) @ [digit (n div 10)]"
    using decimal_step [OF b2] by (simp only: h)
  also have "decimal (n div 100) = decimal (n div 1000) @ [digit (n div 100)]"
    using decimal_step [OF b3] by (simp only: t)
  also have "decimal (n div 1000) = [digit (n div 1000)]"
    using b4 by (rule decimal_one_digit)
  finally show ?thesis
    by (simp add: four_digits_def)
qed

lemma strftime_dt_format:
  assumes "1000 \<le> year d" and "year d \<le> 9999"
  shows "strftime d ''%Y-%m-%d %H:%M:%S'' = yyyy_MM_dd_HH_mm_ss d"
  by (simp add: directive_def yyyy_MM_dd_HH_mm_ss_def decimal_four_digits [OF assms])

text \<open>Below the year 1000 the year has fewer than four digits.\<close>

lemma strftime_short_year:
  "strftime sample_early ''%Y-%m-%d %H:%M:%S'' = ''999-01-02 03:04:05''"
  by (simp add: sample_early_def directive_def decimal.simps two_digits_def digit_def)

lemma sample_stamps:
  "yyyy_MM_dd_HH_mm_ss sample_from = ''2024-03-07 09:05:00''"
  "yyyy_MM_dd_HH_mm_ss sample_to = ''2024-12-31 23:59:59''"
  by (simp_all add: yyyy_MM_dd_HH_mm_ss_def sample_from_def sample_to_def four_digits_def
      two_digits_def digit_def)

lemma make_request_requests:
  "set (requests (snd (make_request self url params headers outs))) = {sent self url params headers}"
  by (simp add: make_request_def Let_def make_request_loop_requests no_effects_def sent_def)

lemma snd_decode: "snd (decode json fmt r) = snd r"
  by (simp add: decode_def split: prod.splits option.splits sum.splits)

lemma fst_decode:
  assumes "fst r = Some (Inr resp)"
  shows "fst (decode json fmt r) =
           (if fmt = ''csv'' then Some (Inr (Text (resp_text resp)))
            else (case json (resp_text resp) of
                    Some j \<Rightarrow> Some (Inr (Json j))
                  | None \<Rightarrow> Some (Inl JSONDecodeError)))"
  using assms by (cases r) (simp add: decode_def split: option.splits)

text \<open>
  Every request a call of \<open>export\<close> issues is the one assembled for a registered
  resource with both ends of the date range, and such a call does issue a request.
\<close>

lemma export_requestE:
  assumes "rq \<in> set (requests (snd (export S json self resource app fields0 date_from date_to kwargs outs)))"
  obtains fs df dt where "map_of (RESOURCES_SCHEMA S) resource = Some fs"
    and "date_from = Some df" and "date_to = Some dt"
    and "rq = sent self
               (api_endpoint self @ ''/'' @ resource @ ''.'' @ export_format_of kwargs)
               ((export_params app
                   (join '','' (case fields0 of None \<Rightarrow> fs | Some xs \<Rightarrow> xs)) kwargs)
                  (''date_since'' \<mapsto> strftime df ''%Y-%m-%d %H:%M:%S'',
                   ''date_until'' \<mapsto> strftime dt ''%Y-%m-%d %H:%M:%S''))
               (export_headers kwargs)"
proof (cases "map_of (RESOURCES_SCHEMA S) resource")
  case None
  with assms show ?thesis
    by (simp add: export_unregistered no_effects_def)
next
  case reg: (Some fs)
  show ?thesis
  proof (cases date_from)
    case None
    with assms show ?thesis
      by (simp add: export_staged [OF reg] no_effects_def)
  next
    case df: (Some df)
    show ?thesis
    proof (cases date_to)
      case None
      with assms df show ?thesis
        by (simp add: export_staged [OF reg] no_effects_def)
    next
      case dt: (Some dt)
      from assms have "rq = sent self
               (api_endpoint self @ ''/'' @ resource @ ''.'' @ export_format_of kwargs)
               ((export_params app
                   (join '','' (case fields0 of None \<Rightarrow> fs | Some xs \<Rightarrow> xs)) kwargs)
                  (''date_since'' \<mapsto> strftime df ''%Y-%m-%d %H:%M:%S'',
                   ''date_until'' \<mapsto> strftime dt ''%Y-%m-%d %H:%M:%S''))
               (export_headers kwargs)"
        unfolding export_staged [OF reg] df dt prod.case option.case snd_decode
          make_request_requests
        by simp
      with reg df dt show ?thesis
        by (rule that)
    qed
  qed
qed

lemma export_issues_request:
  assumes "map_of (RESOURCES_SCHEMA S) resource = Some fs"
  shows "requests (snd (export S json self resource app fields0 (Some df) (Some dt) kwargs outs)) \<noteq> []"
proof -
  have "set (requests (snd (export S json self resource app fields0 (Some df) (Some dt) kwargs outs))) \<noteq> {}"
    unfolding export_staged [OF assms] prod.case option.case snd_decode make_request_requests
    by simp
  then show ?thesis
    by auto
qed

lemma export_result:
  assumes "map_of (RESOURCES_SCHEMA S) resource = Some fs"
    and "list_all preparing pre" and "status_code resp = 200"
  shows "fst (export S json self resource app fields0 (Some df) (Some dt) kwargs
                (pre @ Returns resp # rest)) =
           (if export_format_of kwargs = ''csv'' then Some (Inr (Text (resp_text resp)))
            else (case json (resp_text resp) of
                    Some j \<Rightarrow> Some (Inr (Json j))
                  | None \<Rightarrow> Some (Inl JSONDecodeError)))"
proof -
  have "fst (make_request self url params headers (pre @ Returns resp # rest)) = Some (Inr resp)"
    for url params headers
    using assms(3) by (simp add: make_request_after_preparing [OF assms(2)] Let_def)
  then show ?thesis
    unfolding export_staged [OF assms(1)] prod.case option.case
    by (rule fst_decode)
qed

lemma hd_satisfies: "xs \<noteq> [] \<Longrightarrow> \<forall>x \<in> set xs. P x \<Longrightarrow> P (hd xs)"
  by simp

lemma export_params_fields:
  "''fields'' \<notin> dom kwargs \<Longrightarrow> export_params app f kwargs ''fields'' = Some f"
  by (auto simp: export_params_def map_add_def split: option.splits)

lemma export_params_consumed:
  "export_params app f kwargs ''export_format'' = None"
  "export_params app f kwargs ''cache_control'' = None"
  "export_params app f kwargs ''accept_encoding'' = None"
  by (simp_all add: export_params_def map_add_def)

lemma export_headers_lookup:
  "export_headers kwargs ''Cache-Control'' = truthy (kwargs ''cache_control'')"
  "export_headers kwargs ''Accept-Encoding'' = truthy (kwargs ''accept_encoding'')"
  "export_headers kwargs ''Authorization'' = None"
  by (simp_all add: export_headers_def)

lemma export_headers_dom: "dom (export_headers kwargs) \<subseteq> {''Cache-Control'', ''Accept-Encoding''}"
  by (auto simp: export_headers_def split: if_splits)

subsection \<open>Unregistered resources\<close>

text \<open>
  C1, as amended. A resource that is not a key of the registry is rejected: the call raises
  \<open>AppmetricaClientError\<close> naming the resource and issues no request, whether or not a
  field list is given. Membership in the registry decides whether a request is assembled at
  all, not only whether the fields are defaulted. (The resources "profiles" and "push_tokens", which the
  date rule names, are the subject of C2.)
\<close>

theorem export_unknown_resource:
  assumes "resource \<notin> fst ` set (RESOURCES_SCHEMA S)"
    and "resource \<noteq> ''profiles''" and "resource \<noteq> ''push_tokens''"
  shows "export S json self resource app fields0 date_from date_to kwargs outs =
           (Some (Inl (AppmetricaClientError (ResourceNotAvailable resource) None)), no_effects)"
proof -
  from assms(1) have "map_of (RESOURCES_SCHEMA S) resource = None"
    by (simp add: map_of_eq_None_iff)
  then show ?thesis
    by (rule export_unregistered)
qed

theorem export_unknown_resource_witness:
  "export sample_schemas sample_json (init ''token'') ''sessions_starts'' ''42''
     (Some [''session_id'']) (Some sample_from) (Some sample_to) Map.empty [status 200 ''1''] =
   (Some (Inl (AppmetricaClientError (ResourceNotAvailable ''sessions_starts'') None)),
    no_effects)"
  using export_unknown_resource [of "''sessions_starts''" sample_schemas sample_json
      "init ''token''" "''42''" "Some [''session_id'']" "Some sample_from" "Some sample_to"
      Map.empty "[status 200 ''1'']"]
  by (simp add: registry_keys)

text \<open>
  With an explicit, non-empty field list the unregistered resource "crashes" fails all the
  same.
\<close>

theorem export_unknown_resource_counterexample:
  "export sample_schemas sample_json (init ''token'') ''crashes'' ''42''
     (Some [''crash_id'', ''crash_datetime'']) (Some sample_from) (Some sample_to) Map.empty
     [status 200 ''crash_id,crash_datetime''] =
   (Some (Inl (AppmetricaClientError (ResourceNotAvailable ''crashes'') None)), no_effects)"
  by (rule export_unregistered) (simp add: registered_cases)

text \<open>
  C2. The date rule exempts "profiles" and "push_tokens" from the date range, and its comment
  says so, but neither is a key of the registry: a call for either of them without dates
  is rejected as an unavailable resource before the date rule is reached.
\<close>

theorem export_exempt_resources_rejected:
  "export S json self ''profiles'' app fields0 None None kwargs outs =
     (Some (Inl (AppmetricaClientError (ResourceNotAvailable ''profiles'') None)), no_effects) \<and>
   export S json self ''push_tokens'' app fields0 None None kwargs outs =
     (Some (Inl (AppmetricaClientError (ResourceNotAvailable ''push_tokens'') None)), no_effects)"
proof
  show "export S json self ''profiles'' app fields0 None None kwargs outs =
     (Some (Inl (AppmetricaClientError (ResourceNotAvailable ''profiles'') None)), no_effects)"
    by (rule export_unregistered) (simp add: registered_cases)
  show "export S json self ''push_tokens'' app fields0 None None kwargs outs =
     (Some (Inl (AppmetricaClientError (ResourceNotAvailable ''push_tokens'') None)), no_effects)"
    by (rule export_unregistered) (simp add: registered_cases)
qed

subsection \<open>The date range\<close>

text \<open>
  C4, as amended. For a resource other than "profiles" and "push_tokens": without
  \<open>date_from\<close> or without \<open>date_to\<close> the call raises \<open>AppmetricaClientError\<close> and
  issues no request; with both, the resource a key of the registry and both years between
  1000 and 9999, a request is issued and every request carries the two timestamps, laid
  out as "yyyy-MM-dd HH:mm:ss", as \<open>date_since\<close> and \<open>date_until\<close>.
\<close>

theorem export_date_range:
  assumes "resource \<noteq> ''profiles''" and "resource \<noteq> ''push_tokens''"
  shows "(date_from = None \<or> date_to = None \<longrightarrow>
            export S json self resource app fields0 date_from date_to kwargs outs =
              (Some (Inl (AppmetricaClientError
                 (if resource \<in> fst ` set (RESOURCES_SCHEMA S) then DateRangeRequired resource
                  else ResourceNotAvailable resource) None)), no_effects)) \<and>
         (resource \<in> fst ` set (RESOURCES_SCHEMA S) \<and> date_from = Some df \<and> date_to = Some dt \<and>
          1000 \<le> year df \<and> year df \<le> 9999 \<and> 1000 \<le> year dt \<and> year dt \<le> 9999 \<longrightarrow>
            requests (snd (export S json self resource app fields0 date_from date_to kwargs outs))
              \<noteq> [] \<and>
            (\<forall>rq \<in> set (requests
                 (snd (export S json self resource app fields0 date_from date_to kwargs outs))).
               req_params rq ''date_since'' = Some (yyyy_MM_dd_HH_mm_ss df) \<and>
               req_params rq ''date_until'' = Some (yyyy_MM_dd_HH_mm_ss dt)))"
proof (intro conjI impI)
  assume none: "date_from = None \<or> date_to = None"
  show "export S json self resource app fields0 date_from date_to kwargs outs =
      (Some (Inl (AppmetricaClientError
         (if resource \<in> fst ` set (RESOURCES_SCHEMA S) then DateRangeRequired resource
          else ResourceNotAvailable resource) None)), no_effects)"
  proof (cases "map_of (RESOURCES_SCHEMA S) resource")
    case None
    then have "resource \<notin> fst ` set (RESOURCES_SCHEMA S)"
      by (simp add: map_of_eq_None_iff)
    with None show ?thesis
      by (simp add: export_unregistered)
  next
    case (Some fs)
    then have "resource \<in> fst ` set (RESOURCES_SCHEMA S)"
      by (metis map_of_eq_None_iff option.distinct(1))
    with none show ?thesis
      by (auto simp: export_staged [OF Some] split: option.splits)
  qed
next
  assume reg: "resource \<in> fst ` set (RESOURCES_SCHEMA S) \<and> date_from = Some df \<and>
    date_to = Some dt \<and>
    1000 \<le> year df \<and> year df \<le> 9999 \<and> 1000 \<le> year dt \<and> year dt \<le> 9999"
  then obtain fs where fs: "map_of (RESOURCES_SCHEMA S) resource = Some fs"
    by (metis map_of_eq_None_iff not_Some_eq)
  from reg have since: "strftime df ''%Y-%m-%d %H:%M:%S'' = yyyy_MM_dd_HH_mm_ss df"
    by (intro strftime_dt_format) simp_all
  from reg have until: "strftime dt ''%Y-%m-%d %H:%M:%S'' = yyyy_MM_dd_HH_mm_ss dt"
    by (intro strftime_dt_format) simp_all
  from reg show "requests
      (snd (export S json self resource app fields0 date_from date_to kwargs outs)) \<noteq> []"
    by (simp add: export_issues_request [OF fs])
  show "\<forall>rq \<in> set (requests
           (snd (export S json self resource app fields0 date_from date_to kwargs outs))).
         req_params rq ''date_since'' = Some (yyyy_MM_dd_HH_mm_ss df) \<and>
         req_params rq ''date_until'' = Some (yyyy_MM_dd_HH_mm_ss dt)"
  proof
    fix rq
    assume "rq \<in> set (requests
      (snd (export S json self resource app fields0 date_from date_to kwargs outs)))"
    then have "req_params rq ''date_since'' = Some (strftime df ''%Y-%m-%d %H:%M:%S'') \<and>
        req_params rq ''date_until'' = Some (strftime dt ''%Y-%m-%d %H:%M:%S'')"
      using reg by (elim export_requestE) (simp add: sent_def del: strftime.simps)
    then show "req_params rq ''date_since'' = Some (yyyy_MM_dd_HH_mm_ss df) \<and>
        req_params rq ''date_until'' = Some (yyyy_MM_dd_HH_mm_ss dt)"
      by (simp only: since until)
  qed
qed

theorem export_date_range_witness:
  "export sample_schemas sample_json (init ''token'') ''events'' ''42'' None
     (Some sample_from) None Map.empty [status 200 ''x''] =
     (Some (Inl (AppmetricaClientError (DateRangeRequired ''events'') None)), no_effects) \<and>
   requests (snd (export sample_schemas sample_json (init ''token'') ''installations'' ''42'' None
     (Some sample_from) (Some sample_to) Map.empty [status 200 ''x''])) \<noteq> [] \<and>
   req_params (hd (requests (snd (export sample_schemas sample_json (init ''token'')
     ''installations'' ''42'' None (Some sample_from) (Some sample_to) Map.empty
     [status 200 ''x''])))) ''date_since'' = Some ''2024-03-07 09:05:00'' \<and>
   req_params (hd (requests (snd (export sample_schemas sample_json (init ''token'')
     ''installations'' ''42'' None (Some sample_from) (Some sample_to) Map.empty
     [status 200 ''x''])))) ''date_until'' = Some ''2024-12-31 23:59:59''"
proof -
  let ?rqs = "requests (snd (export sample_schemas sample_json (init ''token'')
     ''installations'' ''42'' None (Some sample_from) (Some sample_to) Map.empty
     [status 200 ''x'']))"
  have undated: "export sample_schemas sample_json (init ''token'') ''events'' ''42'' None
     (Some sample_from) None Map.empty [status 200 ''x''] =
     (Some (Inl (AppmetricaClientError (DateRangeRequired ''events'') None)), no_effects)"
    using export_date_range [of "''events''" "Some sample_from" None sample_schemas sample_json
      "init ''token''" "''42''" None Map.empty "[status 200 ''x'']"]
    by (simp add: registry_keys)
  have ne: "?rqs \<noteq> []"
    and dated: "\<forall>rq \<in> set ?rqs.
      req_params rq ''date_since'' = Some ''2024-03-07 09:05:00'' \<and>
      req_params rq ''date_until'' = Some ''2024-12-31 23:59:59''"
    using export_date_range [of "''installations''" "Some sample_from" "Some sample_to"
      sample_schemas sample_json "init ''token''" "''42''" None Map.empty "[status 200 ''x'']"
      sample_from sample_to]
    by (simp_all add: registry_keys sample_stamps sample_from_def [THEN arg_cong, of year]
        sample_to_def [THEN arg_cong, of year])
  from ne dated have "req_params (hd ?rqs) ''date_since'' = Some ''2024-03-07 09:05:00'' \<and>
      req_params (hd ?rqs) ''date_until'' = Some ''2024-12-31 23:59:59''"
    by (rule hd_satisfies)
  with undated ne show ?thesis
    by simp
qed

text \<open>
  For an unregistered resource with both dates nothing is attached: the call fails and no
  request goes out. And a year below 1000 goes out with fewer than four digits.
\<close>

theorem export_date_range_counterexample:
  "export sample_schemas sample_json (init ''token'') ''clicks'' ''42''
     (Some [''click_id'']) (Some sample_from) (Some sample_to) Map.empty [status 200 ''7''] =
   (Some (Inl (AppmetricaClientError (ResourceNotAvailable ''clicks'') None)),
    \<lparr>requests = [], sleeps = []\<rparr>) \<and>
   length (requests (snd (export sample_schemas sample_json (init ''token'') ''events'' ''42''
     None (Some sample_early) (Some sample_to) Map.empty [status 200 ''7'']))) = 1 \<and>
   req_params (hd (requests (snd (export sample_schemas sample_json (init ''token'') ''events''
     ''42'' None (Some sample_early) (Some sample_to) Map.empty [status 200 ''7'']))))
     ''date_since'' = Some ''999-01-02 03:04:05''"
proof (intro conjI)
  show "export sample_schemas sample_json (init ''token'') ''clicks'' ''42''
     (Some [''click_id'']) (Some sample_from) (Some sample_to) Map.empty [status 200 ''7''] =
   (Some (Inl (AppmetricaClientError (ResourceNotAvailable ''clicks'') None)),
    \<lparr>requests = [], sleeps = []\<rparr>)"
    unfolding no_effects_def [symmetric]
    by (rule export_unregistered) (simp add: registered_cases)
  show "length (requests (snd (export sample_schemas sample_json (init ''token'') ''events''
     ''42'' None (Some sample_early) (Some sample_to) Map.empty [status 200 ''7'']))) = 1"
    unfolding export_staged [OF sample_registry(1)] prod.case option.case snd_decode
    by (simp add: make_request_def Let_def status_def no_effects_def del: strftime.simps)
  show "req_params (hd (requests (snd (export sample_schemas sample_json (init ''token'')
     ''events'' ''42'' None (Some sample_early) (Some sample_to) Map.empty
     [status 200 ''7'']))))
     ''date_since'' = Some ''999-01-02 03:04:05''"
    unfolding export_staged [OF sample_registry(1)] prod.case option.case snd_decode
    by (simp add: make_request_def Let_def status_def no_effects_def strftime_short_year
        del: strftime.simps)
qed

subsection \<open>The field list\<close>

text \<open>
  C7, as amended. For a registered resource every request carries as \<open>fields\<close> the
  comma-joined list: the registry's field names in their order when no list is given, the
  explicit list when one is, whatever the registry holds. With both dates a request is
  issued. (Python binds a keyword argument named \<open>fields\<close> to the parameter, so it is
  never a key of \<open>kwargs\<close>.)
\<close>

theorem export_fields_parameter:
  assumes "map_of (RESOURCES_SCHEMA S) resource = Some fs"
    and "''fields'' \<notin> dom kwargs"
  shows "(\<forall>rq \<in> set (requests
             (snd (export S json self resource app fields0 date_from date_to kwargs outs))).
           req_params rq ''fields'' =
             Some (join '','' (case fields0 of None \<Rightarrow> fs | Some xs \<Rightarrow> xs))) \<and>
         (date_from \<noteq> None \<and> date_to \<noteq> None \<longrightarrow>
           requests (snd (export S json self resource app fields0 date_from date_to kwargs outs))
             \<noteq> [])"
proof (intro conjI ballI impI)
  fix rq
  assume "rq \<in> set (requests
    (snd (export S json self resource app fields0 date_from date_to kwargs outs)))"
  then show "req_params rq ''fields'' =
      Some (join '','' (case fields0 of None \<Rightarrow> fs | Some xs \<Rightarrow> xs))"
    using assms by (elim export_requestE) (auto simp: sent_def export_params_fields)
next
  assume "date_from \<noteq> None \<and> date_to \<noteq> None"
  then obtain df dt where "date_from = Some df" and "date_to = Some dt"
    by auto
  then show "requests
      (snd (export S json self resource app fields0 date_from date_to kwargs outs)) \<noteq> []"
    by (simp add: export_issues_request [OF assms(1)])
qed

theorem export_fields_parameter_witness:
  "requests (snd (export sample_schemas sample_json (init ''token'') ''events''
        ''42'' None (Some sample_from) (Some sample_to) [''limit'' \<mapsto> ''10'']
        [status 200 ''x''])) \<noteq> [] \<and>
   req_params (hd (requests (snd (export sample_schemas sample_json (init ''token'') ''events''
        ''42'' None (Some sample_from) (Some sample_to) [''limit'' \<mapsto> ''10'']
        [status 200 ''x''])))) ''fields'' = Some ''event_name,event_timestamp'' \<and>
   requests (snd (export sample_schemas sample_json (init ''token'') ''events''
        ''42'' (Some [''event_timestamp'', ''os_name'']) (Some sample_from) (Some sample_to)
        Map.empty [status 200 ''x''])) \<noteq> [] \<and>
   req_params (hd (requests (snd (export sample_schemas sample_json (init ''token'') ''events''
        ''42'' (Some [''event_timestamp'', ''os_name'']) (Some sample_from) (Some sample_to)
        Map.empty [status 200 ''x''])))) ''fields'' = Some ''event_timestamp,os_name''"
proof -
  let ?dflt = "requests (snd (export sample_schemas sample_json (init ''token'') ''events''
        ''42'' None (Some sample_from) (Some sample_to) [''limit'' \<mapsto> ''10'']
        [status 200 ''x'']))"
  let ?expl = "requests (snd (export sample_schemas sample_json (init ''token'') ''events''
        ''42'' (Some [''event_timestamp'', ''os_name'']) (Some sample_from) (Some sample_to)
        Map.empty [status 200 ''x'']))"
  have d: "?dflt \<noteq> []"
    "\<forall>rq \<in> set ?dflt. req_params rq ''fields'' = Some ''event_name,event_timestamp''"
    using export_fields_parameter [of sample_schemas "''events''"
      "[''event_name'', ''event_timestamp'']" "[''limit'' \<mapsto> ''10'']" sample_json
      "init ''token''" "''42''" None "Some sample_from" "Some sample_to" "[status 200 ''x'']"]
    by (simp_all add: sample_registry)
  have e: "?expl \<noteq> []"
    "\<forall>rq \<in> set ?expl. req_params rq ''fields'' = Some ''event_timestamp,os_name''"
    using export_fields_parameter [of sample_schemas "''events''"
      "[''event_name'', ''event_timestamp'']" Map.empty sample_json
      "init ''token''" "''42''" "Some [''event_timestamp'', ''os_name'']" "Some sample_from"
      "Some sample_to" "[status 200 ''x'']"]
    by (simp_all add: sample_registry)
  from d have "req_params (hd ?dflt) ''fields'' = Some ''event_name,event_timestamp''"
    by (rule hd_satisfies)
  moreover from e have "req_params (hd ?expl) ''fields'' = Some ''event_timestamp,os_name''"
    by (rule hd_satisfies)
  ultimately show ?thesis
    using d(1) e(1) by simp
qed

text \<open>
  For an unregistered resource an explicit field list does not make a request: there is
  no \<open>fields\<close> parameter at all.
\<close>

theorem export_explicit_fields_counterexample:
  "export sample_schemas sample_json (init ''token'') ''deeplinks'' ''42''
     (Some [''deeplink_url_host'', ''deeplink_url_path'']) (Some sample_from) (Some sample_to)
     Map.empty [status 200 ''h,p''] =
   (Some (Inl (AppmetricaClientError (ResourceNotAvailable ''deeplinks'') None)),
    \<lparr>requests = [], sleeps = []\<rparr>)"
  unfolding no_effects_def [symmetric]
  by (rule export_unregistered) (simp add: registered_cases)

subsection \<open>URL and decoding\<close>

text \<open>
  C8. Every request of a call goes to \<open>{api_endpoint}/{resource}.{export_format}\<close>,
  the format being "csv" when the option is absent. When the executor returns a response
  (status 200, after any number of "preparing" answers), the result is the body as text for
  the format "csv", and otherwise what \<open>response.json()\<close> parses from the body, its
  exception if the body does not parse.
\<close>

theorem export_url_and_decoding:
  "(\<forall>rq \<in> set (requests
       (snd (export S json self resource app fields0 date_from date_to kwargs outs))).
      req_url rq = api_endpoint self @ ''/'' @ resource @ ''.'' @
        (case kwargs ''export_format'' of None \<Rightarrow> ''csv'' | Some f \<Rightarrow> f)) \<and>
   (map_of (RESOURCES_SCHEMA S) resource = Some fs \<and> list_all preparing pre \<and>
    status_code resp = 200 \<longrightarrow>
      requests (snd (export S json self resource app fields0 (Some df) (Some dt) kwargs
        (pre @ Returns resp # rest))) \<noteq> [] \<and>
      fst (export S json self resource app fields0 (Some df) (Some dt) kwargs
        (pre @ Returns resp # rest)) =
        (if (case kwargs ''export_format'' of None \<Rightarrow> ''csv'' | Some f \<Rightarrow> f) = ''csv''
         then Some (Inr (Text (resp_text resp)))
         else (case json (resp_text resp) of
                 Some j \<Rightarrow> Some (Inr (Json j))
               | None \<Rightarrow> Some (Inl JSONDecodeError))))"
proof (intro conjI ballI impI)
  fix rq
  assume "rq \<in> set (requests
    (snd (export S json self resource app fields0 date_from date_to kwargs outs)))"
  then show "req_url rq = api_endpoint self @ ''/'' @ resource @ ''.'' @
      (case kwargs ''export_format'' of None \<Rightarrow> ''csv'' | Some f \<Rightarrow> f)"
    by (elim export_requestE) (simp add: sent_def export_format_of_def)
next
  assume h: "map_of (RESOURCES_SCHEMA S) resource = Some fs \<and> list_all preparing pre \<and>
    status_code resp = 200"
  then show "requests (snd (export S json self resource app fields0 (Some df) (Some dt) kwargs
      (pre @ Returns resp # rest))) \<noteq> []"
    by (simp add: export_issues_request)
  from h have "fst (export S json self resource app fields0 (Some df) (Some dt) kwargs
      (pre @ Returns resp # rest)) =
      (if export_format_of kwargs = ''csv'' then Some (Inr (Text (resp_text resp)))
       else (case json (resp_text resp) of
               Some j \<Rightarrow> Some (Inr (Json j))
             | None \<Rightarrow> Some (Inl JSONDecodeError)))"
    by (intro export_result) simp_all
  then show "fst (export S json self resource app fields0 (Some df) (Some dt) kwargs
      (pre @ Returns resp # rest)) =
      (if (case kwargs ''export_format'' of None \<Rightarrow> ''csv'' | Some f \<Rightarrow> f) = ''csv''
       then Some (Inr (Text (resp_text resp)))
       else (case json (resp_text resp) of
               Some j \<Rightarrow> Some (Inr (Json j))
             | None \<Rightarrow> Some (Inl JSONDecodeError)))"
    by (simp only: export_format_of_def)
qed

theorem export_url_and_decoding_witness:
  "requests (snd (export sample_schemas sample_json (init ''token'') ''events''
        ''42'' None (Some sample_from) (Some sample_to) Map.empty
        [status 200 (''a,b'' @ [CHR 0x0A] @ ''1,2'')])) \<noteq> [] \<and>
   req_url (hd (requests (snd (export sample_schemas sample_json (init ''token'') ''events''
        ''42'' None (Some sample_from) (Some sample_to) Map.empty
        [status 200 (''a,b'' @ [CHR 0x0A] @ ''1,2'')])))) =
     ''https://api.appmetrica.yandex.ru/logs/v1/export/events.csv'' \<and>
   fst (export sample_schemas sample_json (init ''token'') ''events''
        ''42'' None (Some sample_from) (Some sample_to) Map.empty
        [status 200 (''a,b'' @ [CHR 0x0A] @ ''1,2'')]) =
     Some (Inr (Text (''a,b'' @ [CHR 0x0A] @ ''1,2''))) \<and>
   fst (export sample_schemas sample_json (init ''token'') ''events''
        ''42'' None (Some sample_from) (Some sample_to) [''export_format'' \<mapsto> ''json'']
        [status 202 [], status 200 ''[]'']) = Some (Inr (Json []))"
proof -
  let ?csv = "export sample_schemas sample_json (init ''token'') ''events''
        ''42'' None (Some sample_from) (Some sample_to) Map.empty
        [status 200 (''a,b'' @ [CHR 0x0A] @ ''1,2'')]"
  have c: "requests (snd ?csv) \<noteq> []"
    "\<forall>rq \<in> set (requests (snd ?csv)).
       req_url rq = ''https://api.appmetrica.yandex.ru/logs/v1/export/events.csv''"
    "fst ?csv = Some (Inr (Text (''a,b'' @ [CHR 0x0A] @ ''1,2'')))"
    using export_url_and_decoding [of sample_schemas sample_json "init ''token''" "''events''"
      "''42''" None "Some sample_from" "Some sample_to" Map.empty
      "[status 200 (''a,b'' @ [CHR 0x0A] @ ''1,2'')]" "[''event_name'', ''event_timestamp'']"
      "[]" "\<lparr>status_code = 200, resp_text = ''a,b'' @ [CHR 0x0A] @ ''1,2''\<rparr>"
      sample_from sample_to "[]"]
    by (simp_all add: sample_registry init_def status_def)
  have j: "fst (export sample_schemas sample_json (init ''token'') ''events''
        ''42'' None (Some sample_from) (Some sample_to) [''export_format'' \<mapsto> ''json'']
        [status 202 [], status 200 ''[]'']) = Some (Inr (Json []))"
    using export_url_and_decoding [of sample_schemas sample_json "init ''token''" "''events''"
      "''42''" None "Some sample_from" "Some sample_to" "[''export_format'' \<mapsto> ''json'']"
      "[status 202 [], status 200 ''[]'']" "[''event_name'', ''event_timestamp'']"
      "[status 202 []]" "\<lparr>status_code = 200, resp_text = ''[]''\<rparr>"
      sample_from sample_to "[]"]
    by (simp add: sample_registry status_def preparing_def sample_json_def)
  from c(1,2) have "req_url (hd (requests (snd ?csv))) =
      ''https://api.appmetrica.yandex.ru/logs/v1/export/events.csv''"
    by (rule hd_satisfies)
  with c(1,3) j show ?thesis
    by simp
qed

text \<open>
  C10. The decoding only asks whether the format is "csv". For any other format, "xml" as
  well as "json", the URL ends in that format and the body is parsed as JSON.
\<close>

theorem export_other_format_parsed_as_json:
  assumes "kwargs ''export_format'' = Some f" and "f \<noteq> ''csv''"
  shows "(\<forall>rq \<in> set (requests
             (snd (export S json self resource app fields0 date_from date_to kwargs outs))).
            req_url rq = api_endpoint self @ ''/'' @ resource @ ''.'' @ f) \<and>
         (map_of (RESOURCES_SCHEMA S) resource = Some fs \<and> list_all preparing pre \<and>
          status_code resp = 200 \<longrightarrow>
            requests (snd (export S json self resource app fields0 (Some df) (Some dt) kwargs
              (pre @ Returns resp # rest))) \<noteq> [] \<and>
            fst (export S json self resource app fields0 (Some df) (Some dt) kwargs
              (pre @ Returns resp # rest)) =
              (case json (resp_text resp) of
                 Some j \<Rightarrow> Some (Inr (Json j))
               | None \<Rightarrow> Some (Inl JSONDecodeError)))"
proof -
  have fmt: "export_format_of kwargs = f"
    using assms(1) by (simp add: export_format_of_def)
  show ?thesis
  proof (intro conjI ballI impI)
    fix rq
    assume "rq \<in> set (requests
      (snd (export S json self resource app fields0 date_from date_to kwargs outs)))"
    then show "req_url rq = api_endpoint self @ ''/'' @ resource @ ''.'' @ f"
      by (elim export_requestE) (simp add: sent_def fmt)
  next
    assume h: "map_of (RESOURCES_SCHEMA S) resource = Some fs \<and> list_all preparing pre \<and>
      status_code resp = 200"
    then show "requests (snd (export S json self resource app fields0 (Some df) (Some dt)
        kwargs (pre @ Returns resp # rest))) \<noteq> []"
      by (simp add: export_issues_request)
    from h have "fst (export S json self resource app fields0 (Some df) (Some dt) kwargs
        (pre @ Returns resp # rest)) =
        (if export_format_of kwargs = ''csv'' then Some (Inr (Text (resp_text resp)))
         else (case json (resp_text resp) of
                 Some j \<Rightarrow> Some (Inr (Json j))
               | None \<Rightarrow> Some (Inl JSONDecodeError)))"
      by (intro export_result) simp_all
    with assms(2) show "fst (export S json self resource app fields0 (Some df) (Some dt) kwargs
        (pre @ Returns resp # rest)) =
        (case json (resp_text resp) of
           Some j \<Rightarrow> Some (Inr (Json j))
         | None \<Rightarrow> Some (Inl JSONDecodeError))"
      by (simp only: fmt if_False)
  qed
qed

theorem export_other_format_parsed_as_json_witness:
  "requests (snd (export sample_schemas sample_json (init ''token'')
        ''installations'' ''42'' None (Some sample_from) (Some sample_to)
        [''export_format'' \<mapsto> ''xml''] [status 200 ''[]''])) \<noteq> [] \<and>
   req_url (hd (requests (snd (export sample_schemas sample_json (init ''token'')
        ''installations'' ''42'' None (Some sample_from) (Some sample_to)
        [''export_format'' \<mapsto> ''xml''] [status 200 ''[]''])))) =
     ''https://api.appmetrica.yandex.ru/logs/v1/export/installations.xml'' \<and>
   fst (export sample_schemas sample_json (init ''token'')
        ''installations'' ''42'' None (Some sample_from) (Some sample_to)
        [''export_format'' \<mapsto> ''xml''] [status 200 ''[]'']) = Some (Inr (Json [])) \<and>
   fst (export sample_schemas sample_json (init ''token'')
        ''installations'' ''42'' None (Some sample_from) (Some sample_to)
        [''export_format'' \<mapsto> ''xml''] [status 200 ''<a/>'']) = Some (Inl JSONDecodeError)"
proof -
  let ?ok = "export sample_schemas sample_json (init ''token'')
        ''installations'' ''42'' None (Some sample_from) (Some sample_to)
        [''export_format'' \<mapsto> ''xml''] [status 200 ''[]'']"
  have a: "requests (snd ?ok) \<noteq> []"
    "\<forall>rq \<in> set (requests (snd ?ok)).
       req_url rq = ''https://api.appmetrica.yandex.ru/logs/v1/export/installations.xml''"
    "fst ?ok = Some (Inr (Json []))"
    using export_other_format_parsed_as_json [of "[''export_format'' \<mapsto> ''xml'']" "''xml''"
      sample_schemas sample_json "init ''token''" "''installations''" "''42''" None
      "Some sample_from" "Some sample_to" "[status 200 ''[]'']"
      "[''install_datetime'', ''is_reinstallation'']" "[]"
      "\<lparr>status_code = 200, resp_text = ''[]''\<rparr>" sample_from sample_to "[]"]
    by (simp_all add: sample_registry init_def status_def sample_json_def)
  have b: "fst (export sample_schemas sample_json (init ''token'')
        ''installations'' ''42'' None (Some sample_from) (Some sample_to)
        [''export_format'' \<mapsto> ''xml''] [status 200 ''<a/>'']) = Some (Inl JSONDecodeError)"
    using export_other_format_parsed_as_json [of "[''export_format'' \<mapsto> ''xml'']" "''xml''"
      sample_schemas sample_json "init ''token''" "''installations''" "''42''" None
      "Some sample_from" "Some sample_to" "[status 200 ''<a/>'']"
      "[''install_datetime'', ''is_reinstallation'']" "[]"
      "\<lparr>status_code = 200, resp_text = ''<a/>''\<rparr>" sample_from sample_to "[]"]
    by (simp add: sample_registry status_def sample_json_def)
  from a(1,2) have "req_url (hd (requests (snd ?ok))) =
      ''https://api.appmetrica.yandex.ru/logs/v1/export/installations.xml''"
    by (rule hd_satisfies)
  with a(1,3) b show ?thesis
    by simp
qed

subsection \<open>Headers and consumed options\<close>

text \<open>
  C9, as amended. Every request carries \<open>Authorization: OAuth {token}\<close>; it carries
  \<open>Cache-Control\<close> exactly when the caller supplied a non-empty \<open>cache_control\<close>, and
  \<open>Accept-Encoding\<close> exactly when the caller supplied a non-empty
  \<open>accept_encoding\<close>, each with the value supplied, and no other header. The options
  \<open>export_format\<close>, \<open>cache_control\<close> and \<open>accept_encoding\<close> are not among the
  query parameters.
\<close>

theorem export_headers_and_parameters:
  "(\<forall>rq \<in> set (requests
       (snd (export S json self resource app fields0 date_from date_to kwargs outs))).
      req_headers rq ''Authorization'' = Some (''OAuth '' @ app_token self) \<and>
      req_headers rq ''Cache-Control'' = truthy (kwargs ''cache_control'') \<and>
      req_headers rq ''Accept-Encoding'' = truthy (kwargs ''accept_encoding'') \<and>
      dom (req_headers rq) \<subseteq> {''Authorization'', ''Cache-Control'', ''Accept-Encoding''} \<and>
      req_params rq ''export_format'' = None \<and>
      req_params rq ''cache_control'' = None \<and>
      req_params rq ''accept_encoding'' = None) \<and>
   (map_of (RESOURCES_SCHEMA S) resource = Some fs \<longrightarrow>
      requests (snd (export S json self resource app fields0 (Some df) (Some dt) kwargs outs))
        \<noteq> [])"
proof (intro conjI ballI impI)
  fix rq
  assume rq: "rq \<in> set (requests
    (snd (export S json self resource app fields0 date_from date_to kwargs outs)))"
  from rq show "req_headers rq ''Authorization'' = Some (''OAuth '' @ app_token self)"
    by (elim export_requestE) (simp add: sent_def)
  from rq show "req_headers rq ''Cache-Control'' = truthy (kwargs ''cache_control'')"
    by (elim export_requestE) (simp add: sent_def export_headers_lookup)
  from rq show "req_headers rq ''Accept-Encoding'' = truthy (kwargs ''accept_encoding'')"
    by (elim export_requestE) (simp add: sent_def export_headers_lookup)
  from rq show "dom (req_headers rq) \<subseteq> {''Authorization'', ''Cache-Control'', ''Accept-Encoding''}"
    using export_headers_dom [of kwargs]
    by (elim export_requestE) (auto simp: sent_def)
  from rq show "req_params rq ''export_format'' = None"
    by (elim export_requestE) (simp add: sent_def export_params_consumed)
  from rq show "req_params rq ''cache_control'' = None"
    by (elim export_requestE) (simp add: sent_def export_params_consumed)
  from rq show "req_params rq ''accept_encoding'' = None"
    by (elim export_requestE) (simp add: sent_def export_params_consumed)
next
  assume "map_of (RESOURCES_SCHEMA S) resource = Some fs"
  then show "requests
      (snd (export S json self resource app fields0 (Some df) (Some dt) kwargs outs)) \<noteq> []"
    by (rule export_issues_request)
qed

theorem export_headers_and_parameters_witness:
  "requests (snd (export sample_schemas sample_json (init ''token'') ''events''
        ''42'' None (Some sample_from) (Some sample_to)
        [''cache_control'' \<mapsto> ''no-cache'', ''accept_encoding'' \<mapsto> [], ''limit'' \<mapsto> ''10'']
        [status 200 ''x''])) \<noteq> [] \<and>
   req_headers (hd (requests (snd (export sample_schemas sample_json (init ''token'') ''events''
        ''42'' None (Some sample_from) (Some sample_to)
        [''cache_control'' \<mapsto> ''no-cache'', ''accept_encoding'' \<mapsto> [], ''limit'' \<mapsto> ''10'']
        [status 200 ''x''])))) ''Authorization'' = Some ''OAuth token'' \<and>
   req_headers (hd (requests (snd (export sample_schemas sample_json (init ''token'') ''events''
        ''42'' None (Some sample_from) (Some sample_to)
        [''cache_control'' \<mapsto> ''no-cache'', ''accept_encoding'' \<mapsto> [], ''limit'' \<mapsto> ''10'']
        [status 200 ''x''])))) ''Cache-Control'' = Some ''no-cache'' \<and>
   req_headers (hd (requests (snd (export sample_schemas sample_json (init ''token'') ''events''
        ''42'' None (Some sample_from) (Some sample_to)
        [''cache_control'' \<mapsto> ''no-cache'', ''accept_encoding'' \<mapsto> [], ''limit'' \<mapsto> ''10'']
        [status 200 ''x''])))) ''Accept-Encoding'' = None \<and>
   req_params (hd (requests (snd (export sample_schemas sample_json (init ''token'') ''events''
        ''42'' None (Some sample_from) (Some sample_to)
        [''cache_control'' \<mapsto> ''no-cache'', ''accept_encoding'' \<mapsto> [], ''limit'' \<mapsto> ''10'']
        [status 200 ''x''])))) ''cache_control'' = None"
proof -
  let ?rqs = "requests (snd (export sample_schemas sample_json (init ''token'') ''events''
        ''42'' None (Some sample_from) (Some sample_to)
        [''cache_control'' \<mapsto> ''no-cache'', ''accept_encoding'' \<mapsto> [], ''limit'' \<mapsto> ''10'']
        [status 200 ''x'']))"
  have a: "?rqs \<noteq> []"
    "\<forall>rq \<in> set ?rqs.
      req_headers rq ''Authorization'' = Some ''OAuth token'' \<and>
      req_headers rq ''Cache-Control'' = Some ''no-cache'' \<and>
      req_headers rq ''Accept-Encoding'' = None \<and>
      req_params rq ''cache_control'' = None"
    using export_headers_and_parameters [of sample_schemas sample_json "init ''token''"
      "''events''" "''42''" None "Some sample_from" "Some sample_to"
      "[''cache_control'' \<mapsto> ''no-cache'', ''accept_encoding'' \<mapsto> [], ''limit'' \<mapsto> ''10'']"
      "[status 200 ''x'']" "[''event_name'', ''event_timestamp'']" sample_from sample_to]
    by (simp_all add: sample_registry init_def truthy_def)
  from a have "req_headers (hd ?rqs) ''Authorization'' = Some ''OAuth token'' \<and>
      req_headers (hd ?rqs) ''Cache-Control'' = Some ''no-cache'' \<and>
      req_headers (hd ?rqs) ''Accept-Encoding'' = None \<and>
      req_params (hd ?rqs) ''cache_control'' = None"
    by (rule hd_satisfies)
  with a(1) show ?thesis
    by simp
qed

text \<open>
  An option supplied as the empty string is consumed but sets no header.
\<close>

theorem export_empty_cache_control_counterexample:
  "([''cache_control'' \<mapsto> []] :: dict) ''cache_control'' = Some [] \<and>
   length (requests (snd (export sample_schemas sample_json (init ''token'') ''events'' ''42''
     None (Some sample_from) (Some sample_to) [''cache_control'' \<mapsto> []]
     [status 200 ''x'']))) = 1 \<and>
   req_headers (hd (requests (snd (export sample_schemas sample_json (init ''token'') ''events''
     ''42'' None (Some sample_from) (Some sample_to) [''cache_control'' \<mapsto> []]
     [status 200 ''x''])))) ''Cache-Control'' = None"
  unfolding export_staged [OF sample_registry(1)] prod.case option.case snd_decode
  by (simp add: make_request_def Let_def status_def no_effects_def export_headers_def truthy_def)

end
